theory Spec2Isabelle
  imports Complex_Main
begin

section \<open>Data model\<close>

text \<open>
  Both \<^verbatim>\<open>data/euroc_utils.py\<close> and \<^verbatim>\<open>data/inertial_ABCs.py\<close> declare the classes
  \<^verbatim>\<open>IMU\<close> and \<^verbatim>\<open>GT\<close> with the same fields.  Timestamps and measurements are
  float64 in the source and real numbers here; a vector is the list of its components
  (three for a measurement, four for the attitude quaternion \<open>w, x, y, z\<close>).
\<close>

type_synonym vec = "real list"

record IMU =
  timestamp :: real
  gyro :: vec
  acc :: vec

record GT =
  timestamp :: real
  pos :: vec
  att :: vec
  vel :: vec
  ang_vel :: vec
  acc :: vec

text \<open>
  The exceptions the modelled code can raise, and \<open>ConfigError\<close>, the error kind the
  specification names for an invalid filter configuration (no modelled function raises it).
\<close>

datatype error = IndexError | ValueError | ZeroDivisionError | AssertionError | ConfigError

section \<open>Alignment: \<^verbatim>\<open>interpolate_ground_truth\<close>\<close>

text \<open>
  \<^verbatim>\<open>raw_imu_data[(imu_timestamps > gt_timestamps[0]) * (imu_timestamps < gt_timestamps[-1])]\<close>:
  the boolean mask keeps the samples strictly inside the ground-truth span, in order.
  Indexing an empty \<^verbatim>\<open>gt_timestamps\<close> raises \<^verbatim>\<open>IndexError\<close>.
\<close>

definition keep_within_span :: "IMU list \<Rightarrow> real list \<Rightarrow> error + IMU list" where
  "keep_within_span raw_imu_data gt_timestamps =
     (if gt_timestamps = [] then Inl IndexError
      else Inr (filter (\<lambda>imu_meas. IMU.timestamp imu_meas > hd gt_timestamps
                                  \<and> IMU.timestamp imu_meas < last gt_timestamps)
                       raw_imu_data))"

text \<open>Sequencing of fallible steps: the first exception raised ends the computation.\<close>

definition bind_err :: "error + 'a \<Rightarrow> ('a \<Rightarrow> error + 'b) \<Rightarrow> error + 'b" where
  "bind_err r f = (case r of Inl e \<Rightarrow> Inl e | Inr x \<Rightarrow> f x)"

text \<open>Using \<^verbatim>\<open>None\<close> where a sequence is expected raises (a \<^verbatim>\<open>TypeError\<close>, rendered as
  \<open>ValueError\<close>).\<close>

definition of_option :: "'a option \<Rightarrow> error + 'a" where
  "of_option x = (case x of None \<Rightarrow> Inl ValueError | Some y \<Rightarrow> Inr y)"

text \<open>Evaluate a fallible function on every element, stopping at the first error.\<close>

fun map_err :: "('a \<Rightarrow> error + 'b) \<Rightarrow> 'a list \<Rightarrow> error + 'b list" where
  "map_err f [] = Inr []"
| "map_err f (x # xs) = bind_err (f x) (\<lambda>y. bind_err (map_err f xs) (\<lambda>ys. Inr (y # ys)))"

text \<open>Column \<open>k\<close> of a matrix given as a list of rows (\<^verbatim>\<open>m[:, k]\<close>).\<close>

definition column :: "nat \<Rightarrow> vec list \<Rightarrow> error + real list" where
  "column k m = map_err (\<lambda>row. if k < length row then Inr (row ! k) else Inl IndexError) m"

text \<open>
  \<^verbatim>\<open>euroc_utils.interpolate_ground_truth\<close>.  \<^verbatim>\<open>scipy.interpolate.interp1d\<close> is a
  library routine and a parameter here: given the abscissae and ordinates it either
  raises or returns an interpolant, which raises or returns a value at a query point.
\<close>

type_synonym interpolant = "real \<Rightarrow> error + real"

definition interpolate_ground_truth ::
  "(real list \<Rightarrow> real list \<Rightarrow> error + interpolant) \<Rightarrow> IMU list \<Rightarrow> GT list
     \<Rightarrow> error + (IMU list \<times> vec list)" where
  "interpolate_ground_truth interp1d raw_imu_data ground_truth_data =
     (let gt_timestamps = map GT.timestamp ground_truth_data;
          gt_velocity = map GT.vel ground_truth_data
      in bind_err (keep_within_span raw_imu_data gt_timestamps) (\<lambda>kept.
         bind_err (column 0 gt_velocity) (\<lambda>vx.
         bind_err (interp1d gt_timestamps vx) (\<lambda>v_x_interp.
         bind_err (column 1 gt_velocity) (\<lambda>vy.
         bind_err (interp1d gt_timestamps vy) (\<lambda>v_y_interp.
         bind_err (column 2 gt_velocity) (\<lambda>vz.
         bind_err (interp1d gt_timestamps vz) (\<lambda>v_z_interp.
         bind_err (map_err (\<lambda>t. bind_err (v_x_interp t) (\<lambda>x.
                                 bind_err (v_y_interp t) (\<lambda>y.
                                 bind_err (v_z_interp t) (\<lambda>z. Inr [x, y, z]))))
                           (map IMU.timestamp kept)) (\<lambda>v_interp.
         Inr (kept, v_interp))))))))))"

text \<open>
  The dataset object of \<^verbatim>\<open>InertialDataset\<close>: the fields the base class declares.
  \<^verbatim>\<open>None\<close> is \<open>None\<close>.
\<close>

record InertialDataset =
  imu_data :: "IMU list option"
  gt_data :: "GT list option"
  sampling_freq :: "real option"
  ds_local_dir :: "string option"
  plot_stft :: bool

text \<open>
  \<^verbatim>\<open>InertialDataset.interpolate_ground_truth\<close>.  \<^verbatim>\<open>interpolate_ts\<close> comes from
  \<^verbatim>\<open>data.utils.data_utils\<close>, which is not part of the sources at hand; it is a parameter:
  ground-truth timestamps, query timestamps, one row of values per ground-truth sample and
  the quaternion flag, giving one row per query timestamp or an error.
\<close>

definition nth_err :: "'a list \<Rightarrow> nat \<Rightarrow> error + 'a" where
  "nth_err xs j = (if j < length xs then Inr (xs ! j) else Inl IndexError)"

definition InertialDataset_interpolate_ground_truth ::
  "(real list \<Rightarrow> real list \<Rightarrow> vec list \<Rightarrow> bool \<Rightarrow> error + vec list)
     \<Rightarrow> InertialDataset \<Rightarrow> error + InertialDataset" where
  "InertialDataset_interpolate_ground_truth interpolate_ts self =
     bind_err (of_option (imu_data self)) (\<lambda>x_data.
     bind_err (of_option (gt_data self)) (\<lambda>gts.
     (let gt_timestamps = map GT.timestamp gts
      in bind_err (keep_within_span x_data gt_timestamps) (\<lambda>kept.
     (let imu_timestamps = map IMU.timestamp kept
      in bind_err (interpolate_ts gt_timestamps imu_timestamps (map GT.pos gts) False)
           (\<lambda>gt_pos_interp.
         bind_err (interpolate_ts gt_timestamps imu_timestamps (map GT.vel gts) False)
           (\<lambda>gt_vel_interp.
         bind_err (interpolate_ts gt_timestamps imu_timestamps (map GT.att gts) True)
           (\<lambda>gt_att_interp.
         bind_err (interpolate_ts gt_timestamps imu_timestamps (map GT.ang_vel gts) False)
           (\<lambda>gt_ang_vel_interp.
         bind_err (interpolate_ts gt_timestamps imu_timestamps (map GT.acc gts) False)
           (\<lambda>gt_acc_interp.
         bind_err (map_err (\<lambda>j.
                     bind_err (nth_err gt_pos_interp j) (\<lambda>p.
                     bind_err (nth_err gt_vel_interp j) (\<lambda>v.
                     bind_err (nth_err gt_att_interp j) (\<lambda>q.
                     bind_err (nth_err gt_ang_vel_interp j) (\<lambda>w.
                     bind_err (nth_err gt_acc_interp j) (\<lambda>a.
                     bind_err (nth_err imu_timestamps j) (\<lambda>t.
                       Inr \<lparr>GT.timestamp = t, pos = p, att = q, vel = v, ang_vel = w,
                            acc = a\<rparr>)))))))
                   [0..<length gt_pos_interp])
           (\<lambda>gt_interp.
         Inr (self\<lparr>imu_data := Some kept, gt_data := Some gt_interp\<rparr>))))))))))))"

section \<open>Orientation interpolation\<close>

text \<open>Quaternions \<open>(w, x, y, z)\<close> with their dot product, scaling, sum and norm.\<close>

type_synonym quat = "real \<times> real \<times> real \<times> real"

fun qdot :: "quat \<Rightarrow> quat \<Rightarrow> real" where
  "qdot (w1, x1, y1, z1) (w2, x2, y2, z2) = w1 * w2 + x1 * x2 + y1 * y2 + z1 * z2"

fun qscale :: "real \<Rightarrow> quat \<Rightarrow> quat" where
  "qscale c (w, x, y, z) = (c * w, c * x, c * y, c * z)"

fun qadd :: "quat \<Rightarrow> quat \<Rightarrow> quat" where
  "qadd (w1, x1, y1, z1) (w2, x2, y2, z2) = (w1 + w2, x1 + x2, y1 + y2, z1 + z2)"

definition qnorm :: "quat \<Rightarrow> real" where
  "qnorm q = sqrt (qdot q q)"

text \<open>
  Modelled from the spec: the renormalization of an interpolated orientation (``interpolated
  orientations must be renormalized after interpolation''), the quaternion divided by its
  norm.
\<close>

definition renormalize :: "quat \<Rightarrow> quat" where
  "renormalize q = qscale (1 / qnorm q) q"

text \<open>
  Modelled from the spec: \<^verbatim>\<open>interpolate_ts(..., is_quaternion=True)\<close> of
  \<^verbatim>\<open>data.utils.data_utils\<close> is called by \<^verbatim>\<open>InertialDataset.interpolate_ground_truth\<close>
  and is not part of the sources at hand.  The spec's words: spherical (great-circle)
  interpolation between the two bracketing unit quaternions, choosing the shorter arc (flip
  the sign of the second quaternion if the dot product with the first is negative) and
  renormalizing the result.  With \<open>theta\<close> the angle between the two quaternions, the point
  at fraction \<open>u\<close> of the arc is
  \<open>(sin ((1 - u) theta) q0 + sin (u theta) q1) / sin theta\<close>.  Where the two quaternions
  coincide up to sign the arc degenerates (the sine of the angle is zero) and the
  interpolated point is the first quaternion.
\<close>

definition slerp :: "quat \<Rightarrow> quat \<Rightarrow> real \<Rightarrow> quat" where
  "slerp q0 q1 u =
     (let d = qdot q0 q1;
          q1' = (if d < 0 then qscale (- 1) q1 else q1);
          theta = arccos \<bar>d\<bar>
      in if sin theta = 0 then renormalize q0
         else renormalize (qadd (qscale (sin ((1 - u) * theta) / sin theta) q0)
                                (qscale (sin (u * theta) / sin theta) q1')))"

text \<open>
  Modelled from the spec: the orientation at a query timestamp \<open>t\<close> between the bracketing
  ground-truth samples \<open>(t0, q0)\<close> and \<open>(t1, q1)\<close>, which \<^verbatim>\<open>interpolate_ts\<close> (not part of the
  sources at hand) computes for every retained IMU timestamp.
\<close>

definition interpolate_orientation :: "real \<times> quat \<Rightarrow> real \<times> quat \<Rightarrow> real \<Rightarrow> quat" where
  "interpolate_orientation s0 s1 t =
     slerp (snd s0) (snd s1) ((t - fst s0) / (fst s1 - fst s0))"

section \<open>Filtering and scaling\<close>

text \<open>Filter coefficients \<open>(b, a)\<close>, as \<^verbatim>\<open>output='ba'\<close> returns them.\<close>

type_synonym coeffs = "real list \<times> real list"

text \<open>
  \<^verbatim>\<open>scipy.signal.butter(N, Wn, output='ba')\<close> designs a digital filter and, as the library
  documents, raises \<^verbatim>\<open>ValueError\<close> ("Digital filter critical frequencies must be
  0 < Wn < 1") for a critical frequency outside the open unit interval.  The computation of
  the coefficients themselves is the parameter \<open>design\<close>.
\<close>

definition butter :: "(nat \<Rightarrow> real \<Rightarrow> coeffs) \<Rightarrow> nat \<Rightarrow> real \<Rightarrow> error + coeffs" where
  "butter design N Wn = (if 0 < Wn \<and> Wn < 1 then Inr (design N Wn) else Inl ValueError)"

text \<open>
  A float64 value as arithmetic produces it: a finite number, an infinity or not-a-number.
  The division \<^verbatim>\<open>/\<close> of the runtime on such values is a parameter of the design step
  below (type \<open>division\<close>): it rounds its result, can underflow to zero and overflow to an
  infinity, and on a zero divisor it raises \<^verbatim>\<open>ZeroDivisionError\<close> (Python floats) or
  returns an infinity or not-a-number (numpy scalars).
\<close>

datatype float64 = Finite real | PosInf | NegInf | NaN

type_synonym division = "float64 \<Rightarrow> float64 \<Rightarrow> error + float64"

text \<open>
  The test \<^verbatim>\<open>Wn <= 0 or Wn >= 1\<close> on a float64 value; both comparisons are false for
  not-a-number.
\<close>

definition out_of_range :: "float64 \<Rightarrow> bool" where
  "out_of_range Wn =
     (case Wn of Finite w \<Rightarrow> w \<le> 0 \<or> 1 \<le> w | PosInf \<Rightarrow> True | NegInf \<Rightarrow> True | NaN \<Rightarrow> False)"

text \<open>
  \<^verbatim>\<open>butterworth_filter(N, Wn, output='ba')\<close>, the name under which
  \<^verbatim>\<open>inertial_ABCs.py\<close> imports \<^verbatim>\<open>scipy.signal.butter\<close>, on a float64 critical
  frequency: the library raises \<^verbatim>\<open>ValueError\<close> when \<^verbatim>\<open>Wn <= 0 or Wn >= 1\<close> and otherwise
  computes the coefficients.  That computation, which may itself raise, is the parameter
  \<open>design\<close>.
\<close>

definition butterworth_filter ::
  "(nat \<Rightarrow> float64 \<Rightarrow> error + coeffs) \<Rightarrow> nat \<Rightarrow> float64 \<Rightarrow> error + coeffs" where
  "butterworth_filter design N Wn = (if out_of_range Wn then Inl ValueError else design N Wn)"

text \<open>
  \<^verbatim>\<open>sklearn.preprocessing.MinMaxScaler\<close>: \<^verbatim>\<open>fit(X)\<close> records, for every column (feature)
  of \<open>X\<close>, the minimum and the maximum over the rows; it rejects an array with no rows.
  The rows of \<open>X\<close> have the same length, as the rows of a numpy matrix do.
\<close>

record MinMaxScaler =
  data_min :: "real list"
  data_max :: "real list"

definition minimum :: "real list \<Rightarrow> real" where
  "minimum xs = fold min (tl xs) (hd xs)"

definition maximum :: "real list \<Rightarrow> real" where
  "maximum xs = fold max (tl xs) (hd xs)"

definition fit :: "vec list \<Rightarrow> error + MinMaxScaler" where
  "fit X =
     (if X = [] then Inl ValueError
      else Inr \<lparr>data_min = map (\<lambda>k. minimum (map (\<lambda>row. row ! k) X)) [0..<length (hd X)],
                data_max = map (\<lambda>k. maximum (map (\<lambda>row. row ! k) X)) [0..<length (hd X)]\<rparr>)"

text \<open>\<^verbatim>\<open>m.reshape(-1, 1)\<close>: all entries of the matrix, row by row, as a single column.\<close>

definition reshape_column :: "vec list \<Rightarrow> vec list" where
  "reshape_column m = map (\<lambda>v. [v]) (concat m)"

text \<open>
  Assigning a block of rows to a slice of the same extent; numpy raises
  \<^verbatim>\<open>ValueError\<close> when the number of rows differs.
\<close>

definition assign_rows :: "'a list \<Rightarrow> 'b list \<Rightarrow> ('a \<Rightarrow> 'b \<Rightarrow> 'a) \<Rightarrow> error + 'a list" where
  "assign_rows target rows put =
     (if length rows = length target then Inr (map2 put target rows) else Inl ValueError)"

text \<open>
  \<^verbatim>\<open>euroc_utils.pre_process_data\<close>.  \<open>imu_vec\<close> is the \<open>n \<times> 2 \<times> 3\<close> array of
  (gyro, acc) pairs.  \<^verbatim>\<open>scipy.signal.lfilter\<close> along axis 0 is the parameter \<open>lfilter\<close>.
  The figures are not modelled, but the exceptions their data preparation raises are:
  \<^verbatim>\<open>imu_vec[:, 1, 1]\<close> on an empty series (\<^verbatim>\<open>IndexError\<close>) and
  \<^verbatim>\<open>np.linalg.norm(np.squeeze(gt_v_interp), axis=1)\<close> on fewer than two velocity vectors
  (an \<^verbatim>\<open>AxisError\<close>, rendered as \<open>ValueError\<close>).  The two scalers written to disk are
  returned with the filtered data.
\<close>

definition pre_process_data ::
  "(nat \<Rightarrow> real \<Rightarrow> coeffs) \<Rightarrow> (coeffs \<Rightarrow> vec list \<Rightarrow> vec list) \<Rightarrow> IMU list \<Rightarrow> vec list
     \<Rightarrow> error + ((vec \<times> vec) list \<times> vec list \<times> MinMaxScaler \<times> MinMaxScaler)" where
  "pre_process_data design lfilter raw_imu_data gt_v_interp =
     (let imu_vec = map (\<lambda>imu_s. (IMU.gyro imu_s, IMU.acc imu_s)) raw_imu_data;
          fs = 200; f0 = 10; w0 = f0 / (fs / 2)
      in bind_err (butter design 10 w0) (\<lambda>ba.
         if imu_vec = [] then Inl IndexError
         else bind_err (assign_rows imu_vec (lfilter ba (map snd imu_vec)) (\<lambda>(g, a) a'. (g, a')))
           (\<lambda>filt_imu_vec.
         if length gt_v_interp < 2 then Inl ValueError
         else bind_err (fit (reshape_column (map fst filt_imu_vec))) (\<lambda>scale_g.
              bind_err (fit (reshape_column (map snd filt_imu_vec))) (\<lambda>scale_a.
              Inr (filt_imu_vec, gt_v_interp, scale_g, scale_a))))))"

text \<open>
  \<^verbatim>\<open>InertialDataset.basic_preprocessing\<close>.  A row of \<open>imu_unroll\<close> is
  \<^verbatim>\<open>IMU.unroll()\<close>, that is (gyro, acc, timestamp); a row of \<open>gt_unroll\<close> is
  \<^verbatim>\<open>GT.unroll()\<close>.  The runtime's division and the library's design computation are the
  parameters \<open>fdiv\<close> and \<open>design\<close> of the design step.  \<^verbatim>\<open>filter_with_coeffs\<close> comes
  from \<^verbatim>\<open>data.utils.data_utils\<close>, which is not part of the sources at hand, and is a
  parameter: denominator and numerator
  coefficients, the \<open>n \<times> 3\<close> signal, the sampling frequency and the plot flag, giving the
  filtered signal (with the flag set the source takes it from the first component of the
  result; the figure is not modelled).  The loop \<^verbatim>\<open>zip(range(imu_channels), (.., ..))\<close>
  visits columns 0 (gyro) and 1 (acc).  The result is the pair the method returns and
  stores in \<^verbatim>\<open>self.imu_data\<close> and \<^verbatim>\<open>self.gt_data\<close>, with the two scalers written to disk.
\<close>

type_synonym imu_row = "vec \<times> vec \<times> real"
type_synonym gt_row = "vec \<times> vec \<times> vec \<times> vec \<times> vec \<times> real"

definition IMU_unroll :: "IMU \<Rightarrow> imu_row" where
  "IMU_unroll self = (IMU.gyro self, IMU.acc self, IMU.timestamp self)"

definition GT_unroll :: "GT \<Rightarrow> gt_row" where
  "GT_unroll self =
     (GT.pos self, GT.vel self, GT.att self, GT.ang_vel self, GT.acc self, GT.timestamp self)"

definition get_ds_directory :: "InertialDataset \<Rightarrow> error + string" where
  "get_ds_directory self =
     (case ds_local_dir self of None \<Rightarrow> Inl AssertionError | Some d \<Rightarrow> Inr d)"

text \<open>
  The design step of \<^verbatim>\<open>basic_preprocessing\<close>: \<^verbatim>\<open>fs = self.sampling_freq\<close>,
  \<^verbatim>\<open>f0 = filter_freq\<close>, \<^verbatim>\<open>w0 = f0 / (fs / 2)\<close> and
  \<^verbatim>\<open>butterworth_filter(10, w0, output='ba')\<close>.  Both divisions are the runtime's.
\<close>

definition design_butterworth ::
  "division \<Rightarrow> (nat \<Rightarrow> float64 \<Rightarrow> error + coeffs) \<Rightarrow> real \<Rightarrow> real \<Rightarrow> error + coeffs" where
  "design_butterworth fdiv design fs f0 =
     bind_err (fdiv (Finite fs) (Finite 2)) (\<lambda>half_fs.
     bind_err (fdiv (Finite f0) half_fs) (\<lambda>w0.
     butterworth_filter design 10 w0))"

definition basic_preprocessing ::
  "division \<Rightarrow> (nat \<Rightarrow> float64 \<Rightarrow> error + coeffs)
     \<Rightarrow> (real list \<Rightarrow> real list \<Rightarrow> vec list \<Rightarrow> real \<Rightarrow> bool \<Rightarrow> vec list)
     \<Rightarrow> InertialDataset \<Rightarrow> real
     \<Rightarrow> error + (imu_row list \<times> gt_row list \<times> MinMaxScaler \<times> MinMaxScaler)" where
  "basic_preprocessing fdiv design filter_with_coeffs self filter_freq =
     (case (imu_data self, gt_data self, sampling_freq self) of
        (Some imus, Some gts, Some fs) \<Rightarrow>
          (let imu_unroll = map IMU_unroll imus;
               gt_unroll = map GT_unroll gts
           in if imu_unroll = [] then Inl IndexError
              else bind_err (design_butterworth fdiv design fs filter_freq) (\<lambda>(b_bw, a_bw).
                   bind_err (assign_rows imu_unroll
                               (filter_with_coeffs a_bw b_bw (map fst imu_unroll) fs
                                  (plot_stft self))
                               (\<lambda>(g, a, t) g'. (g', a, t))) (\<lambda>imu_unroll.
                   bind_err (assign_rows imu_unroll
                               (filter_with_coeffs a_bw b_bw (map (fst \<circ> snd) imu_unroll) fs
                                  (plot_stft self))
                               (\<lambda>(g, a, t) a'. (g, a', t))) (\<lambda>imu_unroll.
                   bind_err (fit (map fst imu_unroll)) (\<lambda>scale_g.
                   bind_err (fit (map (fst \<circ> snd) imu_unroll)) (\<lambda>scale_a.
                   bind_err (get_ds_directory self) (\<lambda>_.
                   Inr (imu_unroll, gt_unroll, scale_g, scale_a))))))))
      | _ \<Rightarrow> Inl AssertionError)"

section \<open>Windows and the train/test split\<close>

text \<open>
  \<^verbatim>\<open>block.reshape(k, 6)\<close> of a \<open>k \<times> 2 \<times> 3\<close> block of (gyro, acc) pairs: one row of six
  values per sample.
\<close>

definition reshape6 :: "(vec \<times> vec) list \<Rightarrow> vec list" where
  "reshape6 block = map (\<lambda>(g, a). g @ a) block"

text \<open>
  The body of the loop of \<^verbatim>\<open>generate_euroc_imu_dataset\<close> for index \<open>i\<close>: the window
  \<open>imu_img\<close>.  \<^verbatim>\<open>raw_imu[0:i+1]\<close> is \<open>take (i + 1)\<close> and \<^verbatim>\<open>raw_imu[i:i + imu_len]\<close>
  is \<open>take imu_len \<circ> drop i\<close>.
\<close>

definition imu_img :: "nat \<Rightarrow> (vec \<times> vec) list \<Rightarrow> nat \<Rightarrow> vec list" where
  "imu_img imu_len raw_imu i =
     (if i < imu_len
      then replicate (imu_len - i - 1) (replicate 6 0) @ reshape6 (take (i + 1) raw_imu)
      else reshape6 (take imu_len (drop i raw_imu)))"

text \<open>\<^verbatim>\<open>np.linalg.norm\<close> of a vector.\<close>

definition linalg_norm :: "vec \<Rightarrow> real" where
  "linalg_norm v = sqrt (\<Sum>x\<leftarrow>v. x * x)"

text \<open>
  The loop \<^verbatim>\<open>for i in range(len(raw_imu) - imu_len)\<close> over the two tensors; reading
  \<^verbatim>\<open>gt_v[i]\<close> past the end of the velocity list raises \<^verbatim>\<open>IndexError\<close>.
\<close>

fun fill_tensors ::
  "nat \<Rightarrow> (vec \<times> vec) list \<Rightarrow> vec list \<Rightarrow> nat list \<Rightarrow> vec list list \<times> real list
     \<Rightarrow> error + (vec list list \<times> real list)" where
  "fill_tensors imu_len raw_imu gt_v [] tensors = Inr tensors"
| "fill_tensors imu_len raw_imu gt_v (i # is) (imu_img_tensor, gt_v_tensor) =
     bind_err (nth_err gt_v i) (\<lambda>v.
       fill_tensors imu_len raw_imu gt_v is
         (imu_img_tensor[i := imu_img imu_len raw_imu i],
          gt_v_tensor[i := linalg_norm v]))"

text \<open>
  The tensors after the loop: both start as zeros with one entry per sample
  (\<^verbatim>\<open>np.zeros((len(raw_imu), imu_len, 6, 1))\<close>, whose trailing axis of extent one is dropped
  here, and \<^verbatim>\<open>np.zeros(len(raw_imu))\<close>).
\<close>

definition build_tensors ::
  "nat \<Rightarrow> (vec \<times> vec) list \<Rightarrow> vec list \<Rightarrow> error + (vec list list \<times> real list)" where
  "build_tensors imu_len raw_imu gt_v =
     fill_tensors imu_len raw_imu gt_v [0..<length raw_imu - imu_len]
       (replicate (length raw_imu) (replicate imu_len (replicate 6 0)),
        replicate (length raw_imu) 0)"

text \<open>
  \<^verbatim>\<open>int(np.ceil(total_ds_len * 0.1))\<close>.  (For every length below \<open>2^53\<close> the float64
  product rounds to a value with the same ceiling as the exact product.)
\<close>

definition holdout_len :: "nat \<Rightarrow> nat" where
  "holdout_len total_ds_len = nat \<lceil>real total_ds_len * 0.1\<rceil>"

text \<open>Fancy indexing \<^verbatim>\<open>t[indexes]\<close> and \<^verbatim>\<open>np.delete(t, indexes, 0)\<close>.\<close>

definition take_indexes :: "'a list \<Rightarrow> nat list \<Rightarrow> error + 'a list" where
  "take_indexes t indexes = map_err (nth_err t) indexes"

definition remaining_indexes :: "nat \<Rightarrow> nat list \<Rightarrow> nat list" where
  "remaining_indexes n indexes = filter (\<lambda>j. j \<notin> set indexes) [0..<n]"

definition np_delete :: "'a list \<Rightarrow> nat list \<Rightarrow> 'a list" where
  "np_delete t indexes = map (\<lambda>j. t ! j) (remaining_indexes (length t) indexes)"

text \<open>
  \<^verbatim>\<open>generate_euroc_imu_dataset\<close>.  The process-wide generator of \<^verbatim>\<open>np.random\<close> is
  explicit state of type \<open>'g\<close>, and \<^verbatim>\<open>np.random.choice(n, k, replace=False)\<close> is the
  parameter \<open>choice\<close>, which raises or returns the drawn indexes and the generator's next
  state.
  The result is what the function saves: the training tensors, the test tensors, and the
  generator state it leaves behind.  Creating and removing the two files is not modelled.
\<close>

type_synonym 'g sampler = "'g \<Rightarrow> nat \<Rightarrow> nat \<Rightarrow> error + (nat list \<times> 'g)"

definition generate_euroc_imu_dataset ::
  "'g sampler \<Rightarrow> 'g \<Rightarrow> nat \<Rightarrow> (vec \<times> vec) list \<Rightarrow> vec list
     \<Rightarrow> error + ((vec list list \<times> real list) \<times> (vec list list \<times> real list) \<times> 'g)" where
  "generate_euroc_imu_dataset choice g imu_len raw_imu gt_v =
     bind_err (build_tensors imu_len raw_imu gt_v) (\<lambda>(imu_img_tensor, gt_v_tensor).
       let total_ds_len = length gt_v_tensor;
           test_ds_len = holdout_len total_ds_len
       in bind_err (choice g total_ds_len test_ds_len) (\<lambda>(test_indexes, g').
          bind_err (take_indexes imu_img_tensor test_indexes) (\<lambda>test_set_x.
          bind_err (take_indexes gt_v_tensor test_indexes) (\<lambda>test_set_y.
          Inr ((np_delete imu_img_tensor test_indexes, np_delete gt_v_tensor test_indexes),
               (test_set_x, test_set_y), g')))))"

section \<open>Training and validation datasets\<close>

text \<open>
  \<^verbatim>\<open>t[:, :, c, 0]\<close> of the window tensor and the assignment to it.  Reading column \<open>c\<close> of
  a row that lacks it raises \<^verbatim>\<open>IndexError\<close>; assigning a matrix of another shape raises
  \<^verbatim>\<open>ValueError\<close>.
\<close>

definition get_channel :: "nat \<Rightarrow> vec list list \<Rightarrow> error + vec list" where
  "get_channel c t = map_err (column c) t"

definition set_channel :: "nat \<Rightarrow> vec list list \<Rightarrow> vec list \<Rightarrow> error + vec list list" where
  "set_channel c t m =
     (if map length m = map length t
      then Inr (map2 (\<lambda>window vals. map2 (\<lambda>row v. row[c := v]) window vals) t m)
      else Inl ValueError)"

text \<open>
  One step of the loop \<^verbatim>\<open>for i in range(3)\<close>: channel \<open>i\<close> through the gyro scaler, channel
  \<open>i + 3\<close> through the accelerometer scaler.  \<^verbatim>\<open>MinMaxScaler.transform\<close> is the parameter
  \<open>transform\<close>.
\<close>

definition scale_step ::
  "(MinMaxScaler \<Rightarrow> vec list \<Rightarrow> error + vec list) \<Rightarrow> MinMaxScaler \<Rightarrow> MinMaxScaler
     \<Rightarrow> nat \<Rightarrow> vec list list \<Rightarrow> error + vec list list" where
  "scale_step transform scale_g scale_a i t =
     bind_err (get_channel i t) (\<lambda>gs.
     bind_err (transform scale_g gs) (\<lambda>gs'.
     bind_err (set_channel i t gs') (\<lambda>t.
     bind_err (get_channel (i + 3) t) (\<lambda>as.
     bind_err (transform scale_a as) (\<lambda>as'.
     set_channel (i + 3) t as')))))"

text \<open>
  \<^verbatim>\<open>generate_cnn_training_dataset\<close>, from the loaded tensors and scalers on.  The
  \<^verbatim>\<open>np.random\<close> generator is explicit state as above.  \<^verbatim>\<open>Dataset.shuffle(buffer, seed)\<close>
  of TensorFlow is the parameter \<open>shuffle\<close>.  A dataset is the sequence of its elements;
  batching and \<^verbatim>\<open>repeat\<close> regroup and cycle that sequence and are not modelled.
\<close>

definition generate_cnn_training_dataset ::
  "'g sampler \<Rightarrow> (nat \<Rightarrow> nat \<Rightarrow> (vec list \<times> real) list \<Rightarrow> (vec list \<times> real) list)
     \<Rightarrow> (MinMaxScaler \<Rightarrow> vec list \<Rightarrow> error + vec list)
     \<Rightarrow> 'g \<Rightarrow> vec list list \<Rightarrow> real list \<Rightarrow> MinMaxScaler \<Rightarrow> MinMaxScaler \<Rightarrow> nat
     \<Rightarrow> error + (((vec list \<times> real) list \<times> (vec list \<times> real) list \<times> (real \<times> real)) \<times> 'g)"
  where
  "generate_cnn_training_dataset choice shuffle transform g imu_img_tensor gt_v_tensor
       scale_g scale_a batch_s =
     (let seed = 8901
      in bind_err (scale_step transform scale_g scale_a 0 imu_img_tensor) (\<lambda>t.
         bind_err (scale_step transform scale_g scale_a 1 t) (\<lambda>t.
         bind_err (scale_step transform scale_g scale_a 2 t) (\<lambda>imu_img_tensor.
         let full_ds_len = length gt_v_tensor;
             val_ds_len = holdout_len full_ds_len;
             train_ds_len = real full_ds_len - real val_ds_len
         in bind_err (choice g full_ds_len val_ds_len) (\<lambda>(val_ds_indexes, g').
            bind_err (take_indexes imu_img_tensor val_ds_indexes) (\<lambda>val_ds_imu_vec.
            bind_err (take_indexes gt_v_tensor val_ds_indexes) (\<lambda>val_ds_v_vec.
            let full_train_ds =
                  shuffle batch_s seed
                    (zip (np_delete imu_img_tensor val_ds_indexes)
                         (np_delete gt_v_tensor val_ds_indexes));
                val_ds = zip val_ds_imu_vec val_ds_v_vec
            in Inr ((full_train_ds, val_ds, (train_ds_len, real val_ds_len)), g'))))))))"

text \<open>
  A concrete generator and sampler to run the split on: the state is a counter, a draw of
  \<open>k\<close> out of \<open>n\<close> takes the first \<open>k\<close> indexes of \<open>[0..<n]\<close> rotated by the counter, and the
  counter advances.  Like \<^verbatim>\<open>np.random.choice\<close> with \<^verbatim>\<open>replace=False\<close> it returns \<open>k\<close>
  distinct indexes below \<open>n\<close>, raises \<^verbatim>\<open>ValueError\<close> for a sample larger than the
  population, and a later draw differs from an earlier one.
\<close>

definition rotating_choice :: "nat sampler" where
  "rotating_choice g n k =
     (if n < k then Inl ValueError else Inr (take k (rotate g [0..<n]), Suc g))"

section \<open>Predicates and sample data\<close>

text \<open>A sample lies strictly inside the span of a ground-truth series.\<close>

definition within_span :: "GT list \<Rightarrow> IMU \<Rightarrow> bool" where
  "within_span gts s \<longleftrightarrow>
     GT.timestamp (hd gts) < IMU.timestamp s \<and> IMU.timestamp s < GT.timestamp (last gts)"

text \<open>Small concrete series and stand-ins for the library routines, to run the model on.\<close>

definition imu_at :: "real \<Rightarrow> IMU" where
  "imu_at t = \<lparr>IMU.timestamp = t, gyro = [t, t + 1, t + 2], acc = [10 * t, 10 * t + 1, 10 * t + 2]\<rparr>"

definition gt_at :: "real \<Rightarrow> vec \<Rightarrow> GT" where
  "gt_at t v = \<lparr>GT.timestamp = t, pos = [0, 0, 0], att = [1, 0, 0, 0], vel = v,
               ang_vel = [0, 0, 0], acc = [0, 0, 0]\<rparr>"

definition first_value_interp1d :: "real list \<Rightarrow> real list \<Rightarrow> error + interpolant" where
  "first_value_interp1d xs ys = (if ys = [] then Inl ValueError else Inr (\<lambda>t. Inr (hd ys)))"

definition first_value_interpolate_ts ::
  "real list \<Rightarrow> real list \<Rightarrow> vec list \<Rightarrow> bool \<Rightarrow> error + vec list" where
  "first_value_interpolate_ts xs ts ys is_quaternion =
     (if ys = [] then Inl ValueError else Inr (map (\<lambda>t. hd ys) ts))"

definition sample_dataset :: InertialDataset where
  "sample_dataset =
     \<lparr>imu_data = Some [imu_at 0, imu_at 1, imu_at 2, imu_at 3],
      gt_data = Some [gt_at 0 [3, 4, 0], gt_at 2 [0, 0, 0]],
      sampling_freq = Some 200, ds_local_dir = Some ''ds/'', plot_stft = False\<rparr>"

text \<open>Stand-ins for the filter design and the filtering routine: a gain of one half.\<close>

definition unit_design :: "nat \<Rightarrow> real \<Rightarrow> coeffs" where
  "unit_design N Wn = ([1 / 2], [1])"

definition half_gain_design :: "nat \<Rightarrow> float64 \<Rightarrow> error + coeffs" where
  "half_gain_design N Wn = Inr ([1 / 2], [1])"

text \<open>
  A stand-in for the runtime's division: on finite numbers the quotient without rounding,
  with \<^verbatim>\<open>ZeroDivisionError\<close> for a zero divisor as on Python floats, and not-a-number
  elsewhere.  The quotients it is run on here are \<open>200 / 2\<close>, \<open>300 / 100\<close> and \<open>10 / 100\<close>.
\<close>

definition exact_divide :: division where
  "exact_divide a b =
     (case (a, b) of
        (Finite x, Finite y) \<Rightarrow> if y = 0 then Inl ZeroDivisionError else Inr (Finite (x / y))
      | _ \<Rightarrow> Inr NaN)"

definition halving_filter :: "real list \<Rightarrow> real list \<Rightarrow> vec list \<Rightarrow> real \<Rightarrow> bool \<Rightarrow> vec list" where
  "halving_filter a b signal_rows fs plot = map (map (\<lambda>v. v / 2)) signal_rows"

text \<open>A series of five aligned samples, as (gyro, acc) pairs, and its velocities.\<close>

definition sample_raw_imu :: "(vec \<times> vec) list" where
  "sample_raw_imu = map (\<lambda>s. (IMU.gyro s, IMU.acc s)) [imu_at 0, imu_at 1, imu_at 2, imu_at 3, imu_at 4]"

definition sample_gt_v :: "vec list" where
  "sample_gt_v = [[3, 4, 0], [0, 0, 0], [1, 0, 0], [0, 2, 0], [0, 0, 5]]"

text \<open>
  \<^verbatim>\<open>lfilter\<close> for coefficient arrays of length one, \<open>b = [b0]\<close> and \<open>a = [a0]\<close>: every output
  sample is \<open>b0 / a0\<close> times the input sample.
\<close>

definition gain_lfilter :: "coeffs \<Rightarrow> vec list \<Rightarrow> vec list" where
  "gain_lfilter ba signal_rows = map (map (\<lambda>v. hd (fst ba) / hd (snd ba) * v)) signal_rows"

text \<open>
  Stand-ins for the two library routines of \<^verbatim>\<open>generate_cnn_training_dataset\<close>:
  \<^verbatim>\<open>MinMaxScaler.transform\<close> for a scaler fit on a single pooled feature
  (\<open>x * scale + min\<close> with \<open>scale = 1 / (data_max - data_min)\<close>, or 1 for an empty range, and
  \<open>min = - data_min * scale\<close>), and a shuffle whose result depends on its seed only.
\<close>

definition pooled_transform :: "MinMaxScaler \<Rightarrow> vec list \<Rightarrow> error + vec list" where
  "pooled_transform s m =
     (case (data_min s, data_max s) of
        ([lo], [hi]) \<Rightarrow>
          (let scale = (if hi - lo = 0 then 1 else 1 / (hi - lo))
           in Inr (map (map (\<lambda>x. x * scale + (0 - lo * scale))) m))
      | _ \<Rightarrow> Inl ValueError)"

definition parity_shuffle :: "nat \<Rightarrow> nat \<Rightarrow> 'a list \<Rightarrow> 'a list" where
  "parity_shuffle buffer seed xs = (if even seed then xs else rev xs)"

definition unit_scaler :: MinMaxScaler where
  "unit_scaler = \<lparr>data_min = [0], data_max = [1]\<rparr>"

text \<open>Three windows of length one and their targets.\<close>

definition sample_windows :: "vec list list" where
  "sample_windows = [[[1, 2, 3, 4, 5, 6]], [[7, 8, 9, 10, 11, 12]], [[13, 14, 15, 16, 17, 18]]]"

definition sample_targets :: "real list" where
  "sample_targets = [1, 2, 3]"

section \<open>Alignment keeps only samples strictly inside the ground-truth span\<close>

lemma keep_within_span_strict:
  assumes "keep_within_span xs ts = Inr kept"
  shows "ts \<noteq> [] \<and> kept = filter (\<lambda>s. hd ts < IMU.timestamp s \<and> IMU.timestamp s < last ts) xs"
  using assms by (auto simp: keep_within_span_def split: if_splits)

lemma bind_err_Inr_iff: "bind_err r f = Inr y \<longleftrightarrow> (\<exists>x. r = Inr x \<and> f x = Inr y)"
  by (cases r) (simp_all add: bind_err_def)

lemma bind_err_Inr [simp]: "bind_err (Inr x) f = f x"
  by (simp add: bind_err_def)

lemma bind_err_Inl [simp]: "bind_err (Inl e) f = Inl e"
  by (simp add: bind_err_def)

lemma of_option_Inr_iff: "of_option x = Inr y \<longleftrightarrow> x = Some y"
  by (cases x) (simp_all add: of_option_def)

lemma interpolate_ground_truth_kept:
  assumes "interpolate_ground_truth interp1d raw_imu_data ground_truth_data = Inr (kept, v_interp)"
  shows "keep_within_span raw_imu_data (map GT.timestamp ground_truth_data) = Inr kept"
  using assms
  by (auto simp: interpolate_ground_truth_def Let_def bind_err_Inr_iff)

lemma InertialDataset_interpolate_ground_truth_kept:
  assumes "InertialDataset_interpolate_ground_truth interpolate_ts self = Inr self'"
  shows "\<exists>x_data gts kept. imu_data self = Some x_data \<and> gt_data self = Some gts
           \<and> keep_within_span x_data (map GT.timestamp gts) = Inr kept
           \<and> imu_data self' = Some kept"
  using assms
  by (auto simp: InertialDataset_interpolate_ground_truth_def Let_def bind_err_Inr_iff
                 of_option_Inr_iff)

lemma keep_within_span_GT:
  assumes "keep_within_span xs (map GT.timestamp gts) = Inr kept"
  shows "gts \<noteq> [] \<and> kept = filter (within_span gts) xs"
  using keep_within_span_strict[OF assms]
  by (auto simp: within_span_def hd_map last_map cong: filter_cong)

text \<open>
  C3.  Whenever either alignment routine returns, the IMU samples it retains are exactly
  the input samples whose timestamp is strictly greater than the first and strictly less
  than the last ground-truth timestamp, in input order: no sample at or before the first,
  or at or after the last, ground-truth timestamp survives.  This holds whatever the
  interpolation routines compute.
\<close>

theorem alignment_strictly_within_span:
  "(interpolate_ground_truth interp1d raw_imu_data ground_truth_data = Inr (kept, v_interp) \<longrightarrow>
      ground_truth_data \<noteq> [] \<and> kept = filter (within_span ground_truth_data) raw_imu_data
      \<and> (\<forall>s \<in> set kept. GT.timestamp (hd ground_truth_data) < IMU.timestamp s
                          \<and> IMU.timestamp s < GT.timestamp (last ground_truth_data)))
   \<and> (InertialDataset_interpolate_ground_truth interpolate_ts self = Inr self' \<longrightarrow>
        (\<exists>x_data gts kept'. imu_data self = Some x_data \<and> gt_data self = Some gts \<and> gts \<noteq> []
           \<and> imu_data self' = Some kept' \<and> kept' = filter (within_span gts) x_data
           \<and> (\<forall>s \<in> set kept'. GT.timestamp (hd gts) < IMU.timestamp s
                                \<and> IMU.timestamp s < GT.timestamp (last gts))))"
proof (intro conjI impI)
  assume a: "interpolate_ground_truth interp1d raw_imu_data ground_truth_data = Inr (kept, v_interp)"
  from keep_within_span_GT[OF interpolate_ground_truth_kept[OF a]]
  show "ground_truth_data \<noteq> []"
    and k: "kept = filter (within_span ground_truth_data) raw_imu_data"
    by simp_all
  show "\<forall>s \<in> set kept. GT.timestamp (hd ground_truth_data) < IMU.timestamp s
                          \<and> IMU.timestamp s < GT.timestamp (last ground_truth_data)"
    unfolding k by (simp add: within_span_def)
next
  assume a: "InertialDataset_interpolate_ground_truth interpolate_ts self = Inr self'"
  from InertialDataset_interpolate_ground_truth_kept[OF a]
  obtain x_data gts kept' where h: "imu_data self = Some x_data" "gt_data self = Some gts"
     "keep_within_span x_data (map GT.timestamp gts) = Inr kept'" "imu_data self' = Some kept'"
    by blast
  from keep_within_span_GT[OF h(3)]
  have g: "gts \<noteq> []" and k: "kept' = filter (within_span gts) x_data"
    by simp_all
  have "\<forall>s \<in> set kept'. GT.timestamp (hd gts) < IMU.timestamp s
                                \<and> IMU.timestamp s < GT.timestamp (last gts)"
    unfolding k by (simp add: within_span_def)
  with h g k
  show "\<exists>x_data gts kept'. imu_data self = Some x_data \<and> gt_data self = Some gts \<and> gts \<noteq> []
           \<and> imu_data self' = Some kept' \<and> kept' = filter (within_span gts) x_data
           \<and> (\<forall>s \<in> set kept'. GT.timestamp (hd gts) < IMU.timestamp s
                                \<and> IMU.timestamp s < GT.timestamp (last gts))"
    by blast
qed

lemma sample_euroc_alignment:
  "interpolate_ground_truth first_value_interp1d
     [imu_at 0, imu_at 1, imu_at 2, imu_at 3] [gt_at 0 [3, 4, 0], gt_at 2 [0, 0, 0]]
   = Inr ([imu_at 1], [[3, 4, 0]])"
  by (simp add: interpolate_ground_truth_def keep_within_span_def column_def
        first_value_interp1d_def imu_at_def gt_at_def)

lemma sample_dataset_alignment:
  "InertialDataset_interpolate_ground_truth first_value_interpolate_ts sample_dataset
   = Inr (sample_dataset\<lparr>imu_data := Some [imu_at 1],
                          gt_data := Some [\<lparr>GT.timestamp = 1, pos = [0, 0, 0], att = [1, 0, 0, 0],
                                           vel = [3, 4, 0], ang_vel = [0, 0, 0],
                                           acc = [0, 0, 0]\<rparr>]\<rparr>)"
  by (simp add: InertialDataset_interpolate_ground_truth_def keep_within_span_def
        first_value_interpolate_ts_def sample_dataset_def imu_at_def gt_at_def of_option_def
        nth_err_def)

theorem alignment_strictly_within_span_witness:
  "interpolate_ground_truth first_value_interp1d
     [imu_at 0, imu_at 1, imu_at 2, imu_at 3] [gt_at 0 [3, 4, 0], gt_at 2 [0, 0, 0]]
     = Inr ([imu_at 1], [[3, 4, 0]])
   \<and> 0 < IMU.timestamp (imu_at 1) \<and> IMU.timestamp (imu_at 1) < 2
   \<and> (\<exists>self'. InertialDataset_interpolate_ground_truth first_value_interpolate_ts
                 sample_dataset = Inr self'
        \<and> imu_data self' = Some [imu_at 1])"
proof -
  note t = alignment_strictly_within_span
             [of first_value_interp1d "[imu_at 0, imu_at 1, imu_at 2, imu_at 3]"
                 "[gt_at 0 [3, 4, 0], gt_at 2 [0, 0, 0]]" "[imu_at 1]" "[[3, 4, 0]]"
                 first_value_interpolate_ts sample_dataset]
  from t[THEN conjunct1, THEN mp, OF sample_euroc_alignment]
  have "\<forall>s \<in> set [imu_at 1].
          GT.timestamp (hd [gt_at 0 [3, 4, 0], gt_at 2 [0, 0, 0]]) < IMU.timestamp s
          \<and> IMU.timestamp s < GT.timestamp (last [gt_at 0 [3, 4, 0], gt_at 2 [0, 0, 0]])"
    by blast
  then have "0 < IMU.timestamp (imu_at 1) \<and> IMU.timestamp (imu_at 1) < 2"
    by (simp add: gt_at_def)
  with sample_euroc_alignment sample_dataset_alignment show ?thesis
    by simp
qed

section \<open>Preprocessing leaves the timestamps alone\<close>

lemma assign_rows_Inr_iff:
  "assign_rows target rows put = Inr r \<longleftrightarrow> length rows = length target \<and> r = map2 put target rows"
  by (auto simp: assign_rows_def)

lemma map2_keeps_timestamp:
  assumes "length ys = length xs" "\<And>x y. snd (snd (put x y)) = snd (snd x)"
  shows "map (snd \<circ> snd) (map2 put xs ys) = map (snd \<circ> snd) xs"
  using assms(1)
proof (induction xs arbitrary: ys)
  case Nil
  then show ?case by simp
next
  case (Cons x xs)
  then obtain y ys' where "ys = y # ys'" by (cases ys) auto
  with Cons assms(2) show ?case by simp
qed

lemma assign_rows_keeps_timestamp:
  assumes "assign_rows xs ys put = Inr r" "\<And>x y. snd (snd (put x y)) = snd (snd x)"
  shows "map (snd \<circ> snd) r = map (snd \<circ> snd) xs"
proof -
  from assms(1) have "length ys = length xs" and "r = map2 put xs ys"
    by (simp_all add: assign_rows_Inr_iff)
  with map2_keeps_timestamp[of ys xs put] assms(2) show ?thesis by simp
qed

text \<open>
  C10.  When \<^verbatim>\<open>basic_preprocessing\<close> returns, the timestamp column of the IMU matrix it
  returns holds the timestamps of the input IMU samples, element for element and in order:
  only the gyro and accelerometer columns are replaced by filtered values.  This holds
  for every division, every filter design and every filtering routine.
\<close>

theorem basic_preprocessing_keeps_timestamps:
  assumes "basic_preprocessing fdiv design filter_with_coeffs self filter_freq
             = Inr (imu_unroll, gt_unroll, scale_g, scale_a)"
  shows "\<exists>imus. imu_data self = Some imus
           \<and> map (snd \<circ> snd) imu_unroll = map IMU.timestamp imus"
proof -
  from assms obtain imus gts fs where d: "imu_data self = Some imus" "gt_data self = Some gts"
      "sampling_freq self = Some fs"
    by (auto simp: basic_preprocessing_def split: option.splits)
  from assms d obtain b_bw a_bw u1 where
      u1: "assign_rows (map IMU_unroll imus)
             (filter_with_coeffs a_bw b_bw (map fst (map IMU_unroll imus)) fs (plot_stft self))
             (\<lambda>(g, a, t) g'. (g', a, t)) = Inr u1"
    and u2: "assign_rows u1
             (filter_with_coeffs a_bw b_bw (map (fst \<circ> snd) u1) fs (plot_stft self))
             (\<lambda>(g, a, t) a'. (g, a', t)) = Inr imu_unroll"
    by (auto simp: basic_preprocessing_def Let_def bind_err_Inr_iff split: if_splits)
  have "map (snd \<circ> snd) u1 = map (snd \<circ> snd) (map IMU_unroll imus)"
    by (rule assign_rows_keeps_timestamp[OF u1]) (simp split: prod.splits)
  moreover have "map (snd \<circ> snd) imu_unroll = map (snd \<circ> snd) u1"
    by (rule assign_rows_keeps_timestamp[OF u2]) (simp split: prod.splits)
  moreover have "map (snd \<circ> snd) (map IMU_unroll imus) = map IMU.timestamp imus"
    by (simp add: IMU_unroll_def)
  ultimately show ?thesis using d by simp
qed

lemma sample_basic_preprocessing:
  "\<exists>imu_unroll gt_unroll scale_g scale_a.
     basic_preprocessing exact_divide half_gain_design halving_filter sample_dataset 10
       = Inr (imu_unroll, gt_unroll, scale_g, scale_a)"
  by (simp add: basic_preprocessing_def sample_dataset_def design_butterworth_def
      exact_divide_def butterworth_filter_def out_of_range_def half_gain_design_def
      halving_filter_def assign_rows_def fit_def get_ds_directory_def IMU_unroll_def imu_at_def)

theorem basic_preprocessing_keeps_timestamps_witness:
  "\<exists>imu_unroll gt_unroll scale_g scale_a.
     basic_preprocessing exact_divide half_gain_design halving_filter sample_dataset 10
       = Inr (imu_unroll, gt_unroll, scale_g, scale_a)
     \<and> map (snd \<circ> snd) imu_unroll = [0, 1, 2, 3]"
proof -
  from sample_basic_preprocessing obtain imu_unroll gt_unroll scale_g scale_a where
    r: "basic_preprocessing exact_divide half_gain_design halving_filter sample_dataset 10
       = Inr (imu_unroll, gt_unroll, scale_g, scale_a)" by blast
  from basic_preprocessing_keeps_timestamps[OF r]
  have "map (snd \<circ> snd) imu_unroll = [0, 1, 2, 3]"
    by (simp add: sample_dataset_def imu_at_def)
  with r show ?thesis by (intro exI conjI)
qed

section \<open>The train/test split\<close>

lemma nth_err_Inr_iff: "nth_err t j = Inr x \<longleftrightarrow> j < length t \<and> x = t ! j"
  by (auto simp: nth_err_def)

lemma map_err_nth_err_iff:
  "map_err (nth_err t) idx = Inr r \<longleftrightarrow> (\<forall>j \<in> set idx. j < length t) \<and> r = map (\<lambda>j. t ! j) idx"
proof (induction idx arbitrary: r)
  case Nil
  show ?case by auto
next
  case (Cons j idx)
  show ?case
    by (auto simp: bind_err_Inr_iff nth_err_Inr_iff Cons.IH)
qed

lemma take_indexes_Inr_iff:
  "take_indexes t idx = Inr r \<longleftrightarrow> (\<forall>j \<in> set idx. j < length t) \<and> r = map (\<lambda>j. t ! j) idx"
  by (simp add: take_indexes_def map_err_nth_err_iff)

lemma fill_tensors_length:
  assumes "fill_tensors imu_len raw_imu gt_v is (X, y) = Inr (X', y')"
  shows "length X' = length X \<and> length y' = length y"
  using assms
proof (induction "is" arbitrary: X y)
  case Nil
  then show ?case by simp
next
  case (Cons i "is")
  from Cons.prems obtain v where
    "fill_tensors imu_len raw_imu gt_v is
       (X[i := imu_img imu_len raw_imu i], y[i := linalg_norm v]) = Inr (X', y')"
    by (auto simp: bind_err_Inr_iff)
  from Cons.IH[OF this] show ?case by simp
qed

lemma build_tensors_length:
  assumes "build_tensors imu_len raw_imu gt_v = Inr (X, y)"
  shows "length X = length raw_imu \<and> length y = length raw_imu"
  using fill_tensors_length[OF assms[unfolded build_tensors_def]] by simp

lemma holdout_len_div: "holdout_len n = (n + 9) div 10"
proof -
  have "\<lceil>real n * 0.1\<rceil> = \<lceil>real_of_int (int n) / real_of_int 10\<rceil>" by simp
  also have "\<dots> = - ((- int n) div 10)" by (simp only: ceiling_divide_eq_div)
  finally show ?thesis unfolding holdout_len_def by linarith
qed

lemma remaining_indexes_partition:
  assumes "set idx \<subseteq> {0..<n}"
  shows "set idx \<inter> set (remaining_indexes n idx) = {}"
    and "set idx \<union> set (remaining_indexes n idx) = {0..<n}"
  using assms by (auto simp: remaining_indexes_def)

text \<open>
  C9.  When \<^verbatim>\<open>generate_euroc_imu_dataset\<close> returns, with \<open>n\<close> the number of windows and
  \<open>idx\<close> the indexes drawn by \<^verbatim>\<open>np.random.choice(n, k, replace=False)\<close> (distinct and \<open>k\<close>
  of them, as the library guarantees for a draw without replacement): \<open>k\<close> is
  \<open>ceil(n * 0.1)\<close>, the test set holds the windows and targets at \<open>idx\<close>, the training set
  holds those at the remaining indexes in their original order, and the two index sets are
  disjoint with union \<open>{0..<n}\<close>.  That the draw is uniform is the library's contract for
  the call made (no weights are passed) and not a property of this code.
\<close>

theorem split_is_partition:
  assumes "generate_euroc_imu_dataset choice g imu_len raw_imu gt_v
             = Inr ((train_x, train_y), (test_x, test_y), g')"
    and "choice g (length raw_imu) (holdout_len (length raw_imu)) = Inr (idx, g2)"
    and "distinct idx" and "length idx = holdout_len (length raw_imu)"
  shows "\<exists>X y. build_tensors imu_len raw_imu gt_v = Inr (X, y)
           \<and> length X = length raw_imu \<and> length y = length raw_imu
           \<and> length idx = nat \<lceil>real (length raw_imu) * 0.1\<rceil>
           \<and> test_x = map (\<lambda>j. X ! j) idx \<and> test_y = map (\<lambda>j. y ! j) idx
           \<and> train_x = map (\<lambda>j. X ! j) (remaining_indexes (length raw_imu) idx)
           \<and> train_y = map (\<lambda>j. y ! j) (remaining_indexes (length raw_imu) idx)
           \<and> length test_x = nat \<lceil>real (length raw_imu) * 0.1\<rceil>
           \<and> length train_x + length test_x = length raw_imu
           \<and> set idx \<inter> set (remaining_indexes (length raw_imu) idx) = {}
           \<and> set idx \<union> set (remaining_indexes (length raw_imu) idx) = {0..<length raw_imu}"
proof -
  from assms(1) obtain X y where b: "build_tensors imu_len raw_imu gt_v = Inr (X, y)"
    by (auto simp: generate_euroc_imu_dataset_def bind_err_Inr_iff)
  from build_tensors_length[OF b] have l: "length X = length raw_imu" "length y = length raw_imu"
    by simp_all
  note c = assms(2)
  from assms(1) b l c
  have tx: "take_indexes X idx = Inr test_x" and ty: "take_indexes y idx = Inr test_y"
    and rx: "train_x = np_delete X idx" and ry: "train_y = np_delete y idx"
    by (auto simp: generate_euroc_imu_dataset_def Let_def bind_err_Inr_iff)
  from tx l have sub: "set idx \<subseteq> {0..<length raw_imu}"
    and ex: "test_x = map (\<lambda>j. X ! j) idx"
    by (auto simp: take_indexes_Inr_iff)
  from ty have ey: "test_y = map (\<lambda>j. y ! j) idx"
    by (simp add: take_indexes_Inr_iff)
  have k: "length idx = nat \<lceil>real (length raw_imu) * 0.1\<rceil>"
    using assms(4) by (simp add: holdout_len_def)
  have d: "distinct (remaining_indexes (length raw_imu) idx)"
    by (simp add: remaining_indexes_def)
  have "card (set idx \<union> set (remaining_indexes (length raw_imu) idx))
          = card (set idx) + card (set (remaining_indexes (length raw_imu) idx))"
    by (rule card_Un_disjoint) (simp_all add: remaining_indexes_partition[OF sub])
  then have sum: "length (remaining_indexes (length raw_imu) idx) + length idx = length raw_imu"
    using distinct_card[OF assms(3)] distinct_card[OF d] remaining_indexes_partition(2)[OF sub]
    by simp
  show ?thesis
    using b l k ex ey rx ry sum remaining_indexes_partition[OF sub]
    by (simp add: np_delete_def)
qed

lemma sample_build_tensors:
  "build_tensors 2 sample_raw_imu sample_gt_v
     = Inr ([imu_img 2 sample_raw_imu 0, imu_img 2 sample_raw_imu 1, imu_img 2 sample_raw_imu 2,
             replicate 2 (replicate 6 0), replicate 2 (replicate 6 0)],
            [linalg_norm [3, 4, 0], linalg_norm [0, 0, 0], linalg_norm [1, 0, 0], 0, 0])"
proof -
  have u: "[0..<length sample_raw_imu - 2] = [0, 1, 2]"
    by (simp add: sample_raw_imu_def upt_rec)
  show ?thesis
    unfolding build_tensors_def u
    by (simp add: sample_raw_imu_def sample_gt_v_def nth_err_def)
qed


lemma sample_holdout_len: "holdout_len 5 = 1"
  by (simp add: holdout_len_div)

lemma sample_draw: "rotating_choice (Suc 0) 5 (Suc 0) = Inr ([Suc 0], 2)"
  by (simp add: rotating_choice_def upt_rec)

lemma sample_generate:
  "\<exists>train_x train_y test_x test_y.
     generate_euroc_imu_dataset rotating_choice 1 2 sample_raw_imu sample_gt_v
       = Inr ((train_x, train_y), (test_x, test_y), 2)"
proof -
  have n: "length [linalg_norm [3, 4, 0], linalg_norm [0, 0, 0], linalg_norm [1, 0, 0], 0, 0]
             = (5::nat)"
    by simp
  show ?thesis
    unfolding generate_euroc_imu_dataset_def sample_build_tensors bind_err_Inr prod.case
      Let_def n sample_holdout_len
    by (simp add: sample_draw take_indexes_def nth_err_def)
qed

theorem split_is_partition_witness:
  "\<exists>train_x train_y test_x test_y.
     generate_euroc_imu_dataset rotating_choice 1 2 sample_raw_imu sample_gt_v
       = Inr ((train_x, train_y), (test_x, test_y), 2)
     \<and> rotating_choice 1 (length sample_raw_imu) (holdout_len (length sample_raw_imu))
         = Inr ([1], 2)
     \<and> distinct [1 :: nat]
     \<and> length test_x = 1 \<and> length train_x + length test_x = 5
     \<and> set [1] \<inter> set (remaining_indexes 5 [1]) = {}
     \<and> set [1] \<union> set (remaining_indexes 5 [1]) = {0..<5}"
proof -
  have n: "length sample_raw_imu = 5"
    by (simp add: sample_raw_imu_def)
  from sample_generate obtain train_x train_y test_x test_y where
    r: "generate_euroc_imu_dataset rotating_choice 1 2 sample_raw_imu sample_gt_v
       = Inr ((train_x, train_y), (test_x, test_y), 2)" by blast
  have c: "rotating_choice 1 (length sample_raw_imu) (holdout_len (length sample_raw_imu))
             = Inr ([1], 2)"
    by (simp add: n sample_holdout_len sample_draw)
  have d: "distinct [1 :: nat]" by simp
  have k: "length [1 :: nat] = holdout_len (length sample_raw_imu)"
    by (simp add: n sample_holdout_len)
  from split_is_partition[OF r c d k]
  have "length test_x = 1 \<and> length train_x + length test_x = 5
     \<and> set [1] \<inter> set (remaining_indexes 5 [1]) = {}
     \<and> set [1] \<union> set (remaining_indexes 5 [1]) = {0..<5}"
    unfolding n by auto
  with r c d show ?thesis by (intro exI conjI) auto
qed

section \<open>Windows: look-ahead and the unfilled tail\<close>

text \<open>
  What the loop leaves in the tensors, for every series: the entries below
  \<open>len(raw_imu) - imu_len\<close> hold the window and the velocity norm of their index, the
  entries from there on are still the zeros of the allocation.
\<close>

lemma fill_tensors_untouched:
  assumes "fill_tensors imu_len raw_imu gt_v is (X, y) = Inr (X', y')" "j \<notin> set is"
  shows "X' ! j = X ! j \<and> y' ! j = y ! j"
  using assms
proof (induction "is" arbitrary: X y)
  case Nil
  then show ?case by simp
next
  case (Cons i "is")
  from Cons.prems obtain v where
    r: "fill_tensors imu_len raw_imu gt_v is
       (X[i := imu_img imu_len raw_imu i], y[i := linalg_norm v]) = Inr (X', y')"
    by (auto simp: bind_err_Inr_iff)
  from Cons.prems(2) have "j \<noteq> i" "j \<notin> set is" by simp_all
  with Cons.IH[OF r] show ?case by simp
qed

lemma fill_tensors_filled:
  assumes "fill_tensors imu_len raw_imu gt_v is (X, y) = Inr (X', y')"
    and "distinct is" "i \<in> set is" "i < length X" "i < length y"
  shows "X' ! i = imu_img imu_len raw_imu i \<and> y' ! i = linalg_norm (gt_v ! i)"
  using assms
proof (induction "is" arbitrary: X y)
  case Nil
  then show ?case by simp
next
  case (Cons k "is")
  from Cons.prems(1) obtain v where v: "nth_err gt_v k = Inr v" and
    r: "fill_tensors imu_len raw_imu gt_v is
       (X[k := imu_img imu_len raw_imu k], y[k := linalg_norm v]) = Inr (X', y')"
    by (auto simp: bind_err_Inr_iff)
  show ?case
  proof (cases "i = k")
    case True
    with Cons.prems(2) have "i \<notin> set is" by simp
    from fill_tensors_untouched[OF r this] True Cons.prems(4,5) v
    show ?thesis by (simp add: nth_err_Inr_iff)
  next
    case False
    with Cons.prems have "distinct is" "i \<in> set is" by simp_all
    from Cons.IH[OF r this] Cons.prems(4,5) show ?thesis by simp
  qed
qed

lemma build_tensors_entries:
  assumes "build_tensors imu_len raw_imu gt_v = Inr (X, y)" "i < length raw_imu"
  shows "i < length raw_imu - imu_len \<longrightarrow>
           X ! i = imu_img imu_len raw_imu i \<and> y ! i = linalg_norm (gt_v ! i)"
    and "length raw_imu - imu_len \<le> i \<longrightarrow>
           X ! i = replicate imu_len (replicate 6 0) \<and> y ! i = 0"
proof -
  note b = assms(1)[unfolded build_tensors_def]
  show "i < length raw_imu - imu_len \<longrightarrow>
           X ! i = imu_img imu_len raw_imu i \<and> y ! i = linalg_norm (gt_v ! i)"
    using fill_tensors_filled[OF b, of i] assms(2) by simp
  show "length raw_imu - imu_len \<le> i \<longrightarrow>
           X ! i = replicate imu_len (replicate 6 0) \<and> y ! i = 0"
    using fill_tensors_untouched[OF b, of i] assms(2) by simp
qed

text \<open>
  For an index at or beyond the window length, row \<open>k\<close> of the window is the sample at
  index \<open>i + k\<close>: every row but the first lies after the anchor.
\<close>

lemma imu_img_ahead:
  assumes "imu_len \<le> i" "k < imu_len" "i + imu_len \<le> length raw_imu"
  shows "imu_img imu_len raw_imu i ! k = fst (raw_imu ! (i + k)) @ snd (raw_imu ! (i + k))"
  using assms by (simp add: imu_img_def reshape6_def split: prod.splits)

lemma sqrt_25: "sqrt 25 = 5"
  by (rule real_sqrt_unique) simp_all

text \<open>
  C1.  The window builder run on five samples with window length 2: the window anchored
  at index 2 consists of the samples at indexes 2 and 3.  Its second row is the sample at
  index 3, which lies after the anchor.
\<close>

theorem window_reads_sample_after_anchor:
  "\<exists>X y. build_tensors 2 sample_raw_imu sample_gt_v = Inr (X, y)
     \<and> X ! 2 = [[2, 3, 4, 20, 21, 22], [3, 4, 5, 30, 31, 32]]
     \<and> X ! 2 ! 1 = fst (sample_raw_imu ! 3) @ snd (sample_raw_imu ! 3)
     \<and> X ! 1 = [[0, 1, 2, 0, 1, 2], [1, 2, 3, 10, 11, 12]]"
  unfolding sample_build_tensors
  by (simp add: imu_img_def reshape6_def sample_raw_imu_def imu_at_def)

text \<open>
  C2.  The same run: five windows and five targets are output, but the loop stops at
  index 2.  The windows at indexes 3 and 4 are left all zero and their targets are left 0,
  while the velocity at index 4 has norm 5.
\<close>

theorem last_windows_left_unfilled:
  "\<exists>X y. build_tensors 2 sample_raw_imu sample_gt_v = Inr (X, y)
     \<and> length X = 5 \<and> length y = 5
     \<and> X ! 3 = replicate 2 (replicate 6 0) \<and> X ! 4 = replicate 2 (replicate 6 0)
     \<and> y ! 3 = 0 \<and> y ! 4 = 0
     \<and> linalg_norm (sample_gt_v ! 3) = 2 \<and> linalg_norm (sample_gt_v ! 4) = 5
     \<and> y ! 0 = 5 \<and> y ! 0 = linalg_norm (sample_gt_v ! 0)"
  unfolding sample_build_tensors
  by (simp add: sample_gt_v_def linalg_norm_def sqrt_25)

section \<open>Which channel groups are filtered, and how the scalers are fit\<close>

lemma assign_rows_keeps_fst:
  assumes "assign_rows xs ys (\<lambda>(g, a) a'. (g, a')) = Inr r"
  shows "map fst r = map fst xs"
proof -
  from assms have l: "length ys = length xs" and r: "r = map2 (\<lambda>(g, a) a'. (g, a')) xs ys"
    by (simp_all add: assign_rows_Inr_iff)
  from l show ?thesis unfolding r
    by (induction xs ys rule: list_induct2') auto
qed

lemma pre_process_data_gyro_unchanged:
  assumes "pre_process_data design lfilter raw_imu_data gt_v_interp
             = Inr (filt_imu_vec, v, scale_g, scale_a)"
  shows "map fst filt_imu_vec = map IMU.gyro raw_imu_data"
proof -
  from assms obtain ba where
    "assign_rows (map (\<lambda>imu_s. (IMU.gyro imu_s, IMU.acc imu_s)) raw_imu_data)
       (lfilter ba (map snd (map (\<lambda>imu_s. (IMU.gyro imu_s, IMU.acc imu_s)) raw_imu_data)))
       (\<lambda>(g, a) a'. (g, a')) = Inr filt_imu_vec"
    by (auto simp: pre_process_data_def Let_def bind_err_Inr_iff split: if_splits)
  from assign_rows_keeps_fst[OF this] show ?thesis by (simp add: comp_def)
qed

lemma fit_reshape_column_single:
  assumes "fit (reshape_column m) = Inr s"
  shows "length (data_min s) = 1 \<and> length (data_max s) = 1"
proof -
  from assms have ne: "reshape_column m \<noteq> []"
    by (auto simp: fit_def split: if_splits)
  then have "length (hd (reshape_column m)) = 1"
    by (cases "concat m") (simp_all add: reshape_column_def)
  with assms ne show ?thesis
    by (auto simp: fit_def split: if_splits)
qed

lemma pre_process_data_pools_axes:
  assumes "pre_process_data design lfilter raw_imu_data gt_v_interp
             = Inr (filt_imu_vec, v, scale_g, scale_a)"
  shows "length (data_min scale_g) = 1 \<and> length (data_max scale_g) = 1
       \<and> length (data_min scale_a) = 1 \<and> length (data_max scale_a) = 1"
proof -
  from assms have "fit (reshape_column (map fst filt_imu_vec)) = Inr scale_g"
    and "fit (reshape_column (map snd filt_imu_vec)) = Inr scale_a"
    by (auto simp: pre_process_data_def Let_def bind_err_Inr_iff split: if_splits)
  from fit_reshape_column_single[OF this(1)] fit_reshape_column_single[OF this(2)]
  show ?thesis by simp
qed

text \<open>
  C6.  \<^verbatim>\<open>pre_process_data\<close> run on two samples with a filter of gain one half: the
  accelerometer group of the result is the filtered (halved) input, the gyroscope group is
  the raw input, unfiltered.
\<close>

theorem pre_process_data_filters_acc_only:
  "\<exists>filt v scale_g scale_a.
     pre_process_data unit_design gain_lfilter [imu_at 2, imu_at 4] [[3, 4, 0], [0, 0, 0]]
       = Inr (filt, v, scale_g, scale_a)
     \<and> map fst filt = [[2, 3, 4], [4, 5, 6]]
     \<and> map fst filt = map IMU.gyro [imu_at 2, imu_at 4]
     \<and> map snd filt = [[10, 21 / 2, 11], [20, 41 / 2, 21]]
     \<and> map snd filt = gain_lfilter ([1 / 2], [1]) (map IMU.acc [imu_at 2, imu_at 4])
     \<and> gain_lfilter ([1 / 2], [1]) (map IMU.gyro [imu_at 2, imu_at 4])
         = [[1, 3 / 2, 2], [2, 5 / 2, 3]]"
  by (simp add: pre_process_data_def butter_def unit_design_def gain_lfilter_def
      assign_rows_def fit_def reshape_column_def imu_at_def)

text \<open>
  C8.  \<^verbatim>\<open>basic_preprocessing\<close> run on four samples: each scaler is fit on the \<open>n \<times> 3\<close>
  matrix of its group and holds one minimum and one maximum per axis (three of each),
  where pooling the axes would give the single pair 0 and 5/2 for the gyroscope group.
\<close>

theorem basic_preprocessing_fits_per_axis:
  "\<exists>imu_unroll gt_unroll scale_g scale_a.
     basic_preprocessing exact_divide half_gain_design halving_filter sample_dataset 10
       = Inr (imu_unroll, gt_unroll, scale_g, scale_a)
     \<and> data_min scale_g = [0, 1 / 2, 1] \<and> data_max scale_g = [3 / 2, 2, 5 / 2]
     \<and> data_min scale_a = [0, 1 / 2, 1] \<and> data_max scale_a = [15, 31 / 2, 16]
     \<and> minimum (concat (map fst imu_unroll)) = 0
     \<and> maximum (concat (map fst imu_unroll)) = 5 / 2"
  by (simp add: basic_preprocessing_def sample_dataset_def design_butterworth_def
      exact_divide_def butterworth_filter_def out_of_range_def half_gain_design_def
      halving_filter_def assign_rows_def fit_def get_ds_directory_def IMU_unroll_def imu_at_def
      minimum_def maximum_def upt_rec)

section \<open>Errors of the filter-design step\<close>

lemma sample_divisions:
  "exact_divide (Finite 200) (Finite 2) = Inr (Finite 100)"
  "exact_divide (Finite 300) (Finite 100) = Inr (Finite 3)"
  "exact_divide (Finite 10) (Finite 100) = Inr (Finite (1 / 10))"
  by (simp_all add: exact_divide_def)

lemma exact_divide_no_ConfigError: "exact_divide a b \<noteq> Inl ConfigError"
  by (cases a; cases b) (simp_all add: exact_divide_def)

lemma half_gain_design_no_ConfigError: "half_gain_design N Wn \<noteq> Inl ConfigError"
  by (simp add: half_gain_design_def)

text \<open>
  C7, as stated, fails: at a sampling frequency of 200 Hz and a filter frequency of 300 Hz
  the normalized cutoff is \<open>300 / (200 / 2) = 3\<close> (both quotients are exact in float64),
  outside the open unit interval, and the design step fails with the library's
  \<^verbatim>\<open>ValueError\<close>, not with a \<^verbatim>\<open>ConfigError\<close>.
\<close>

theorem design_step_no_ConfigError_counterexample:
  "exact_divide (Finite 200) (Finite 2) = Inr (Finite 100)
   \<and> exact_divide (Finite 300) (Finite 100) = Inr (Finite 3)
   \<and> out_of_range (Finite 3)
   \<and> design_butterworth exact_divide half_gain_design 200 300 = Inl ValueError
   \<and> design_butterworth exact_divide half_gain_design 200 300 \<noteq> Inl ConfigError"
  by (simp add: design_butterworth_def sample_divisions butterworth_filter_def out_of_range_def)

text \<open>
  C7, amended.  The filter-design step does no validation of its own and never fails with
  \<^verbatim>\<open>ConfigError\<close>.  \<^verbatim>\<open>basic_preprocessing\<close> passes the constant order 10 and the normalized
  cutoff \<open>filter_freq / (sampling_freq / 2)\<close>, as the runtime's float64 division computes
  it, unchecked to the library's Butterworth design: an exception raised by either division
  is the step's result; when the computed cutoff is \<open>\<le> 0\<close> or \<open>\<ge> 1\<close> the step fails with the
  library's \<^verbatim>\<open>ValueError\<close>; otherwise the result is what the library's design computation
  gives for order 10 and that cutoff.  This holds for every division and every design
  computation that do not raise \<^verbatim>\<open>ConfigError\<close> themselves (it is not an exception of
  Python or of the libraries).  The design step of \<^verbatim>\<open>pre_process_data\<close> has no
  configuration: order 10 and normalized cutoff \<open>10 / (200 / 2)\<close>, and it does not fail.
\<close>

theorem design_step_errors:
  assumes "\<And>a b. fdiv a b \<noteq> Inl ConfigError" and "\<And>N w. design N w \<noteq> Inl ConfigError"
  shows "design_butterworth fdiv design fs f0 \<noteq> Inl ConfigError
   \<and> (\<forall>e. fdiv (Finite fs) (Finite 2) = Inl e
          \<longrightarrow> design_butterworth fdiv design fs f0 = Inl e)
   \<and> (\<forall>half_fs. fdiv (Finite fs) (Finite 2) = Inr half_fs \<longrightarrow>
          (\<forall>e. fdiv (Finite f0) half_fs = Inl e
              \<longrightarrow> design_butterworth fdiv design fs f0 = Inl e)
        \<and> (\<forall>w0. fdiv (Finite f0) half_fs = Inr w0 \<longrightarrow>
              (out_of_range w0 \<longrightarrow> design_butterworth fdiv design fs f0 = Inl ValueError)
            \<and> (\<not> out_of_range w0
                  \<longrightarrow> design_butterworth fdiv design fs f0 = design 10 w0)))
   \<and> butter design' 10 (10 / (200 / 2)) = Inr (design' 10 (1 / 10))"
proof (intro conjI allI impI)
  show "design_butterworth fdiv design fs f0 \<noteq> Inl ConfigError"
  proof (cases "fdiv (Finite fs) (Finite 2)")
    case (Inl e)
    with assms(1)[of "Finite fs" "Finite 2"] show ?thesis
      by (simp add: design_butterworth_def)
  next
    case h: (Inr half_fs)
    show ?thesis
    proof (cases "fdiv (Finite f0) half_fs")
      case (Inl e)
      with h assms(1)[of "Finite f0" half_fs] show ?thesis
        by (simp add: design_butterworth_def)
    next
      case (Inr w0)
      with h assms(2)[of 10 w0] show ?thesis
        by (simp add: design_butterworth_def butterworth_filter_def)
    qed
  qed
qed (simp_all add: design_butterworth_def butterworth_filter_def butter_def)

theorem design_step_errors_witness:
  "(\<forall>a b. exact_divide a b \<noteq> Inl ConfigError)
   \<and> (\<forall>N w. half_gain_design N w \<noteq> Inl ConfigError)
   \<and> exact_divide (Finite 200) (Finite 2) = Inr (Finite 100)
   \<and> exact_divide (Finite 10) (Finite 100) = Inr (Finite (1 / 10))
   \<and> \<not> out_of_range (Finite (1 / 10))
   \<and> design_butterworth exact_divide half_gain_design 200 10 = Inr ([1 / 2], [1])
   \<and> design_butterworth exact_divide half_gain_design 200 10 \<noteq> Inl ConfigError
   \<and> exact_divide (Finite 100) (Finite 100) = Inr (Finite 1)
   \<and> out_of_range (Finite 1)
   \<and> design_butterworth exact_divide half_gain_design 200 100 = Inl ValueError
   \<and> exact_divide (Finite 0) (Finite 2) = Inr (Finite 0)
   \<and> exact_divide (Finite 10) (Finite 0) = Inl ZeroDivisionError
   \<and> design_butterworth exact_divide half_gain_design 0 10 = Inl ZeroDivisionError"
proof -
  note t = design_step_errors[where fdiv = exact_divide and design = half_gain_design,
             OF exact_divide_no_ConfigError half_gain_design_no_ConfigError]
  have d1: "exact_divide (Finite 200) (Finite 2) = Inr (Finite 100)"
    and d2: "exact_divide (Finite 10) (Finite 100) = Inr (Finite (1 / 10))"
    and d3: "exact_divide (Finite 100) (Finite 100) = Inr (Finite 1)"
    and d4: "exact_divide (Finite 0) (Finite 2) = Inr (Finite 0)"
    and d5: "exact_divide (Finite 10) (Finite 0) = Inl ZeroDivisionError"
    by (simp_all add: exact_divide_def)
  have r1: "\<not> out_of_range (Finite (1 / 10))" and r2: "out_of_range (Finite 1)"
    by (simp_all add: out_of_range_def)
  from t[where fs = 200 and ?f0.0 = 10] d1 d2 r1
  have "design_butterworth exact_divide half_gain_design 200 10
          = half_gain_design 10 (Finite (1 / 10))"
    by blast
  then have a: "design_butterworth exact_divide half_gain_design 200 10 = Inr ([1 / 2], [1])"
    by (simp add: half_gain_design_def)
  from t[where fs = 200 and ?f0.0 = 10] have b: "design_butterworth exact_divide half_gain_design 200 10 \<noteq> Inl ConfigError"
    by blast
  from t[where fs = 200 and ?f0.0 = 100] d1 d3 r2
  have c: "design_butterworth exact_divide half_gain_design 200 100 = Inl ValueError"
    by blast
  from t[where fs = 0 and ?f0.0 = 10] d4 d5
  have d: "design_butterworth exact_divide half_gain_design 0 10 = Inl ZeroDivisionError"
    by blast
  from exact_divide_no_ConfigError half_gain_design_no_ConfigError d1 d2 d3 d4 d5 r1 r2 a b c d
  show ?thesis by blast
qed

section \<open>The validation split and the seed\<close>

lemma sample_scale_steps:
  "scale_step pooled_transform unit_scaler unit_scaler 0 sample_windows = Inr sample_windows"
  "scale_step pooled_transform unit_scaler unit_scaler 1 sample_windows = Inr sample_windows"
  "scale_step pooled_transform unit_scaler unit_scaler 2 sample_windows = Inr sample_windows"
  by (simp_all add: scale_step_def get_channel_def set_channel_def column_def
      pooled_transform_def unit_scaler_def sample_windows_def)

lemma sample_holdout_len3: "holdout_len 3 = 1"
  by (simp add: holdout_len_div)

lemma sample_draws:
  "rotating_choice 0 3 (Suc 0) = Inr ([0], Suc 0)"
  "rotating_choice (Suc 0) 3 (Suc 0) = Inr ([Suc 0], 2)"
  by (simp_all add: rotating_choice_def upt_rec)

lemma sample_first_run:
  "generate_cnn_training_dataset rotating_choice parity_shuffle pooled_transform 0
     sample_windows sample_targets unit_scaler unit_scaler 1
   = Inr (([([[13, 14, 15, 16, 17, 18]], 3), ([[7, 8, 9, 10, 11, 12]], 2)],
           [([[1, 2, 3, 4, 5, 6]], 1)], (2, 1)), 1)"
proof -
  have n: "length sample_targets = 3" by (simp add: sample_targets_def)
  show ?thesis
    unfolding generate_cnn_training_dataset_def Let_def sample_scale_steps bind_err_Inr n
      sample_holdout_len3
    by (simp add: sample_draws take_indexes_def nth_err_def np_delete_def remaining_indexes_def
        parity_shuffle_def sample_windows_def sample_targets_def upt_rec)
qed

lemma sample_second_run:
  "generate_cnn_training_dataset rotating_choice parity_shuffle pooled_transform 1
     sample_windows sample_targets unit_scaler unit_scaler 1
   = Inr (([([[13, 14, 15, 16, 17, 18]], 3), ([[1, 2, 3, 4, 5, 6]], 1)],
           [([[7, 8, 9, 10, 11, 12]], 2)], (2, 1)), 2)"
proof -
  have n: "length sample_targets = 3" by (simp add: sample_targets_def)
  show ?thesis
    unfolding generate_cnn_training_dataset_def Let_def sample_scale_steps bind_err_Inr n
      sample_holdout_len3
    by (simp add: sample_draws take_indexes_def nth_err_def np_delete_def remaining_indexes_def
        parity_shuffle_def sample_windows_def sample_targets_def upt_rec)
qed

text \<open>
  C5, as stated, fails: \<^verbatim>\<open>generate_cnn_training_dataset\<close> takes no seed, and two runs in
  a row on identical inputs (the second from the generator state the first leaves behind,
  both with the constant seed 8901 inside) put different windows into the validation set.
\<close>

theorem split_not_reproducible_counterexample:
  "generate_cnn_training_dataset rotating_choice parity_shuffle pooled_transform 0
     sample_windows sample_targets unit_scaler unit_scaler 1
   = Inr (([([[13, 14, 15, 16, 17, 18]], 3), ([[7, 8, 9, 10, 11, 12]], 2)],
           [([[1, 2, 3, 4, 5, 6]], 1)], (2, 1)), 1)
   \<and> generate_cnn_training_dataset rotating_choice parity_shuffle pooled_transform 1
     sample_windows sample_targets unit_scaler unit_scaler 1
   = Inr (([([[13, 14, 15, 16, 17, 18]], 3), ([[1, 2, 3, 4, 5, 6]], 1)],
           [([[7, 8, 9, 10, 11, 12]], 2)], (2, 1)), 2)
   \<and> [([[1, 2, 3, 4, 5, 6]], 1 :: real)] \<noteq> [([[7, 8, 9, 10, 11, 12 :: real]], 2)]"
  using sample_first_run sample_second_run by simp

lemma generate_cnn_training_dataset_Inr:
  assumes "generate_cnn_training_dataset choice shuffle transform g imu_img_tensor gt_v_tensor
             scale_g scale_a batch_s = Inr ((train, val, lens), g')"
  shows "\<exists>t1 t2 t idx.
           scale_step transform scale_g scale_a 0 imu_img_tensor = Inr t1
         \<and> scale_step transform scale_g scale_a 1 t1 = Inr t2
         \<and> scale_step transform scale_g scale_a 2 t2 = Inr t
         \<and> choice g (length gt_v_tensor) (holdout_len (length gt_v_tensor)) = Inr (idx, g')
         \<and> val = zip (map (\<lambda>j. t ! j) idx) (map (\<lambda>j. gt_v_tensor ! j) idx)
         \<and> train = shuffle batch_s 8901 (zip (np_delete t idx) (np_delete gt_v_tensor idx))
         \<and> lens = (real (length gt_v_tensor) - real (holdout_len (length gt_v_tensor)),
                   real (holdout_len (length gt_v_tensor)))"
  using assms
  unfolding generate_cnn_training_dataset_def Let_def
  by (auto simp: bind_err_Inr_iff take_indexes_Inr_iff split: prod.splits)

text \<open>
  C5, amended.  The split takes no seed: the validation indexes are drawn from the
  process-wide NumPy generator, so the partition is determined by the inputs together with
  that generator's state at the call.  Two runs from the same generator state on the same
  tensors and scalers draw the same indexes, produce the same validation set, the same
  lengths and the same training elements before shuffling, and leave the same generator
  state, whatever the shuffle routine and batch size; the constant seed 8901 reaches
  only the shuffle of the training set.
\<close>

theorem split_determined_by_generator_state:
  assumes "generate_cnn_training_dataset choice shuffle transform g imu_img_tensor gt_v_tensor
             scale_g scale_a batch_s = Inr ((train, val, lens), g')"
    and "generate_cnn_training_dataset choice shuffle' transform g imu_img_tensor gt_v_tensor
             scale_g scale_a batch_s' = Inr ((train', val', lens'), g'')"
  shows "val' = val \<and> lens' = lens \<and> g'' = g'
       \<and> (\<exists>t idx.
            choice g (length gt_v_tensor) (holdout_len (length gt_v_tensor)) = Inr (idx, g')
          \<and> val = zip (map (\<lambda>j. t ! j) idx) (map (\<lambda>j. gt_v_tensor ! j) idx)
          \<and> train = shuffle batch_s 8901 (zip (np_delete t idx) (np_delete gt_v_tensor idx))
          \<and> train' = shuffle' batch_s' 8901 (zip (np_delete t idx) (np_delete gt_v_tensor idx)))"
proof -
  from generate_cnn_training_dataset_Inr[OF assms(1)] obtain t1 t2 t idx where
    a: "scale_step transform scale_g scale_a 0 imu_img_tensor = Inr t1"
       "scale_step transform scale_g scale_a 1 t1 = Inr t2"
       "scale_step transform scale_g scale_a 2 t2 = Inr t"
       "choice g (length gt_v_tensor) (holdout_len (length gt_v_tensor)) = Inr (idx, g')"
       "val = zip (map (\<lambda>j. t ! j) idx) (map (\<lambda>j. gt_v_tensor ! j) idx)"
       "train = shuffle batch_s 8901 (zip (np_delete t idx) (np_delete gt_v_tensor idx))"
       "lens = (real (length gt_v_tensor) - real (holdout_len (length gt_v_tensor)),
                   real (holdout_len (length gt_v_tensor)))"
    by blast
  from generate_cnn_training_dataset_Inr[OF assms(2)] a(1-4)
  have b: "g'' = g'"
       "val' = zip (map (\<lambda>j. t ! j) idx) (map (\<lambda>j. gt_v_tensor ! j) idx)"
       "train' = shuffle' batch_s' 8901 (zip (np_delete t idx) (np_delete gt_v_tensor idx))"
       "lens' = (real (length gt_v_tensor) - real (holdout_len (length gt_v_tensor)),
                   real (holdout_len (length gt_v_tensor)))"
    by auto
  from a b show ?thesis by blast
qed

theorem split_determined_by_generator_state_witness:
  "generate_cnn_training_dataset rotating_choice parity_shuffle pooled_transform 0
     sample_windows sample_targets unit_scaler unit_scaler 1
   = Inr (([([[13, 14, 15, 16, 17, 18]], 3), ([[7, 8, 9, 10, 11, 12]], 2)],
           [([[1, 2, 3, 4, 5, 6]], 1)], (2, 1)), 1)
   \<and> (\<exists>t :: vec list list. [([[13, 14, 15, 16, 17, 18]], 3), ([[7, 8, 9, 10, 11, 12]], 2)]
            = parity_shuffle 1 8901 (zip (np_delete t [0]) (np_delete sample_targets [0]))
          \<and> [([[1, 2, 3, 4, 5, 6]], 1)]
            = zip (map (\<lambda>j. t ! j) [0]) (map (\<lambda>j. sample_targets ! j) [0]))"
proof -
  from split_determined_by_generator_state[OF sample_first_run sample_first_run]
  obtain t :: "vec list list" and idx where
    d: "rotating_choice 0 (length sample_targets) (holdout_len (length sample_targets))
          = Inr (idx, 1)"
    and e: "[([[1, 2, 3, 4, 5, 6]], 1)]
       = zip (map (\<lambda>j. t ! j) idx) (map (\<lambda>j. sample_targets ! j) idx)"
     "[([[13, 14, 15, 16, 17, 18]], 3), ([[7, 8, 9, 10, 11, 12]], 2)]
       = parity_shuffle 1 8901 (zip (np_delete t idx) (np_delete sample_targets idx))"
    by blast
  have n: "length sample_targets = 3" by (simp add: sample_targets_def)
  have "rotating_choice 0 (length sample_targets) (holdout_len (length sample_targets))
          = Inr ([0], 1)"
    unfolding n sample_holdout_len3 by (simp add: sample_draws)
  with d have "idx = [0]" by simp
  with e sample_first_run show ?thesis by blast
qed

section \<open>Interpolated orientations have unit norm\<close>

lemma qdot_self_nonneg: "0 \<le> qdot q q"
  by (cases q) simp

lemma qdot_qscale: "qdot (qscale c q) (qscale c q) = c\<^sup>2 * qdot q q"
  by (cases q) (simp add: power2_eq_square algebra_simps)

lemma qnorm_renormalize:
  assumes "0 < qdot q q"
  shows "qnorm (renormalize q) = 1"
proof -
  have s: "0 < sqrt (qdot q q)" using assms by simp
  have "qdot (renormalize q) (renormalize q) = (1 / sqrt (qdot q q))\<^sup>2 * qdot q q"
    by (simp add: renormalize_def qnorm_def qdot_qscale)
  also have "\<dots> = 1"
    using assms by (simp add: power_divide)
  finally show ?thesis by (simp add: qnorm_def)
qed

lemma qnorm_1_iff: "qnorm q = 1 \<longleftrightarrow> qdot q q = 1"
  by (simp add: qnorm_def)

lemma qdot_combination:
  "qdot (qadd (qscale a p) (qscale b q)) (qadd (qscale a p) (qscale b q))
     = a\<^sup>2 * qdot p p + 2 * a * b * qdot p q + b\<^sup>2 * qdot q q"
  by (cases p; cases q) (simp add: power2_eq_square algebra_simps)

lemma qdot_flip_self: "qdot (qscale (- 1) q) (qscale (- 1) q) = qdot q q"
  by (cases q) simp

lemma qdot_flip_right: "qdot p (qscale (- 1) q) = - qdot p q"
  by (cases p; cases q) simp

lemma unit_qdot_bound:
  assumes "qdot p p = 1" "qdot q q = 1"
  shows "\<bar>qdot p q\<bar> \<le> 1"
proof -
  have "0 \<le> qdot (qadd (qscale 1 p) (qscale 1 q)) (qadd (qscale 1 p) (qscale 1 q))"
    by (rule qdot_self_nonneg)
  moreover have "0 \<le> qdot (qadd (qscale 1 p) (qscale (- 1) q)) (qadd (qscale 1 p) (qscale (- 1) q))"
    by (rule qdot_self_nonneg)
  ultimately show ?thesis
    using assms unfolding qdot_combination by simp
qed

lemma slerp_weights_positive:
  assumes "0 \<le> d" "d \<le> 1" "sin (arccos d) \<noteq> 0" "0 \<le> u" "u \<le> 1"
  defines "theta \<equiv> arccos d"
  defines "a \<equiv> sin ((1 - u) * theta) / sin theta"
  defines "b \<equiv> sin (u * theta) / sin theta"
  shows "0 \<le> a \<and> 0 \<le> b \<and> 0 < a\<^sup>2 + b\<^sup>2"
proof -
  have t0: "0 \<le> theta"
    unfolding theta_def using assms(1,2) by (intro arccos_lbound) simp_all
  have t1: "theta \<le> pi / 2"
    unfolding theta_def using assms(1,2) by (intro arccos_le_pi2)
  have "0 \<le> sin theta" using t0 t1 by (intro sin_ge_zero) (auto intro: order_trans)
  with assms(3) have st: "0 < sin theta" by (simp add: theta_def)
  then have tpos: "0 < theta" using t0 by (cases "theta = 0") auto
  have ub: "u * theta \<le> theta"
    using mult_right_mono[OF assms(5) t0] by simp
  have u0: "0 \<le> u * theta" using assms(4) t0 by simp
  have vb: "(1 - u) * theta \<le> theta"
    using mult_right_mono[of "1 - u" 1 theta] assms(4) t0 by simp
  have v0: "0 \<le> (1 - u) * theta" using assms(5) t0 by simp
  have pi2: "pi / 2 < pi" by simp
  have su: "0 \<le> sin (u * theta)"
    using u0 ub t1 pi2 by (intro sin_ge_zero) linarith+
  have sv: "0 \<le> sin ((1 - u) * theta)"
    using v0 vb t1 pi2 by (intro sin_ge_zero) linarith+
  have a0: "0 \<le> a" and b0: "0 \<le> b"
    using su sv st by (simp_all add: a_def b_def)
  have "0 < a \<or> 0 < b"
  proof (cases "u = 0")
    case True
    then have "a = 1" using st by (simp add: a_def)
    then show ?thesis by simp
  next
    case False
    with assms(4) have "0 < u" by simp
    with tpos have "0 < u * theta" by simp
    moreover have "u * theta < pi" using ub t1 pi2 by linarith
    ultimately have "0 < sin (u * theta)" by (rule sin_gt_zero)
    with st have "0 < b" by (simp add: b_def)
    then show ?thesis by simp
  qed
  then have "0 < a\<^sup>2 + b\<^sup>2"
    using a0 b0 by (auto intro: add_pos_nonneg add_nonneg_pos)
  with a0 b0 show ?thesis by simp
qed

lemma qnorm_slerp:
  assumes "qnorm q0 = 1" "qnorm q1 = 1" "0 \<le> u" "u \<le> 1"
  shows "qnorm (slerp q0 q1 u) = 1"
proof -
  from assms have n0: "qdot q0 q0 = 1" and n1: "qdot q1 q1 = 1"
    by (simp_all add: qnorm_1_iff)
  define d where "d = qdot q0 q1"
  define q1' where "q1' = (if d < 0 then qscale (- 1) q1 else q1)"
  define theta where "theta = arccos \<bar>d\<bar>"
  have n1': "qdot q1' q1' = 1"
    using n1 by (simp add: q1'_def qdot_flip_self)
  have dd: "qdot q0 q1' = \<bar>d\<bar>"
    by (simp add: q1'_def qdot_flip_right d_def)
  have bound: "\<bar>d\<bar> \<le> 1" using unit_qdot_bound[OF n0 n1] by (simp add: d_def)
  show ?thesis
  proof (cases "sin theta = 0")
    case True
    then have "slerp q0 q1 u = renormalize q0"
      by (simp add: slerp_def Let_def d_def theta_def)
    with n0 show ?thesis by (simp add: qnorm_renormalize)
  next
    case False
    define a where "a = sin ((1 - u) * theta) / sin theta"
    define b where "b = sin (u * theta) / sin theta"
    from False have s: "slerp q0 q1 u = renormalize (qadd (qscale a q0) (qscale b q1'))"
      by (simp add: slerp_def Let_def d_def theta_def a_def b_def q1'_def)
    from slerp_weights_positive[of "\<bar>d\<bar>" u] False bound assms(3,4)
    have w: "0 \<le> a" "0 \<le> b" "0 < a\<^sup>2 + b\<^sup>2"
      by (simp_all add: a_def b_def theta_def)
    have "0 \<le> 2 * a * b * \<bar>d\<bar>" using w by simp
    with w(3) have "0 < a\<^sup>2 * 1 + 2 * a * b * \<bar>d\<bar> + b\<^sup>2 * 1" by linarith
    then have "0 < qdot (qadd (qscale a q0) (qscale b q1')) (qadd (qscale a q0) (qscale b q1'))"
      unfolding qdot_combination n0 n1' dd .
    then show ?thesis unfolding s by (rule qnorm_renormalize)
  qed
qed

text \<open>
  C4.  For every pair of bracketing samples \<open>(t0, q0)\<close> and \<open>(t1, q1)\<close> with unit
  quaternions and \<open>t0 < t1\<close>, and every timestamp \<open>t\<close> with \<open>t0 \<le> t \<le> t1\<close>, the interpolated
  orientation (spherical interpolation along the shorter arc, the second quaternion
  sign-flipped when the dot product is negative, then renormalized) has unit norm.
\<close>

theorem interpolated_orientation_unit_norm:
  assumes "qnorm q0 = 1" "qnorm q1 = 1" "t0 < t1" "t0 \<le> t" "t \<le> t1"
  shows "qnorm (interpolate_orientation (t0, q0) (t1, q1) t) = 1"
proof -
  have "0 \<le> (t - t0) / (t1 - t0)" and "(t - t0) / (t1 - t0) \<le> 1"
    using assms(3-5) by simp_all
  with assms(1,2) show ?thesis
    by (simp add: interpolate_orientation_def qnorm_slerp)
qed

theorem interpolated_orientation_unit_norm_witness:
  "qnorm (1, 0, 0, 0) = 1 \<and> qnorm (0, - 1, 0, 0) = 1 \<and> (0 :: real) < 2 \<and> (0 :: real) \<le> 1
   \<and> (1 :: real) \<le> 2
   \<and> qnorm (interpolate_orientation (0, (1, 0, 0, 0)) (2, (0, - 1, 0, 0)) 1) = 1
   \<and> interpolate_orientation (0, (1, 0, 0, 0)) (2, (0, - 1, 0, 0)) 0 = (1, 0, 0, 0)"
proof -
  have h: "qnorm (1, 0, 0, 0) = 1" "qnorm (0, - 1, 0, 0) = 1" "(0 :: real) < 2"
    "(0 :: real) \<le> 1" "(1 :: real) \<le> 2"
    by (simp_all add: qnorm_def)
  have e: "interpolate_orientation (0, (1, 0, 0, 0)) (2, (0, - 1, 0, 0)) 0 = (1, 0, 0, 0)"
    by (simp add: interpolate_orientation_def slerp_def renormalize_def qnorm_def)
  from interpolated_orientation_unit_norm[OF h] h e show ?thesis by simp
qed

end
